theory Spec2Isabelle
  imports Main
begin

section \<open>The Channel model and its seeder (model/channel.py)\<close>

text \<open>
  The module declares one ORM class, \<open>Channel\<close>, over the table \<open>channels\<close>, and one
  seeding routine, \<open>initChannels\<close>. Python methods are embedded as functions that take the
  receiver and the world (tables, session, standard output) and return the result, the
  receiver as the call leaves it, and the world as the call leaves it. An exception is a
  value of \<open>exn\<close>, and a call that raises returns \<open>Inl\<close>.
\<close>

subsection \<open>Python values\<close>

text \<open>
  The values a JSON column can hold, and therefore the values the \<open>attributes\<close> argument
  is followed through: \<open>None\<close>, booleans, integers, strings, lists and string-keyed
  dictionaries (in insertion order).
\<close>

datatype pyval =
    PNone
  | PBool bool
  | PInt int
  | PStr string
  | PList "pyval list"
  | PDict "(string \<times> pyval) list"

text \<open>Python's truth value of an object, as \<open>or\<close> tests it.\<close>

fun truthy :: "pyval \<Rightarrow> bool" where
  "truthy PNone = False"
| "truthy (PBool b) = b"
| "truthy (PInt i) = (i \<noteq> 0)"
| "truthy (PStr s) = (s \<noteq> [])"
| "truthy (PList xs) = (xs \<noteq> [])"
| "truthy (PDict kvs) = (kvs \<noteq> [])"

text \<open>\<open>a or b\<close>: the left operand when it is truthy, the right one otherwise.\<close>

definition py_or :: "pyval \<Rightarrow> pyval \<Rightarrow> pyval" where
  "py_or a b = (if truthy a then a else b)"

fun is_dict :: "pyval \<Rightarrow> bool" where
  "is_dict (PDict kvs) = True"
| "is_dict v = False"

fun py_str :: "string option \<Rightarrow> pyval" where
  "py_str None = PNone"
| "py_str (Some s) = PStr s"

fun py_int :: "int option \<Rightarrow> pyval" where
  "py_int None = PNone"
| "py_int (Some i) = PInt i"

subsection \<open>Exceptions\<close>

text \<open>
  Line 2 of the module binds the name \<open>IntegrityError\<close> to \<open>sqlite3.IntegrityError\<close>, the
  class of the DB-API driver. The ORM session raises its own classes
  (\<open>sqlalchemy.exc.IntegrityError\<close>, \<open>sqlalchemy.exc.OperationalError\<close>), which wrap the
  driver's error and do not inherit from the driver's classes. All classes below inherit
  from \<open>Exception\<close>; interrupts of the process are not modelled.
\<close>

datatype exn =
    Sqlite3_IntegrityError string
  | SA_IntegrityError string
  | SA_OperationalError string
  | AttributeError string

text \<open>\<open>isinstance(e, Exception)\<close>, the test of \<open>except Exception as e\<close> in \<open>create\<close>.\<close>

fun is_Exception :: "exn \<Rightarrow> bool" where
  "is_Exception e = True"

text \<open>
  \<open>isinstance(e, IntegrityError)\<close> with the module's binding of that name, the test of
  \<open>except IntegrityError\<close> in \<open>initChannels\<close>.
\<close>

fun is_IntegrityError :: "exn \<Rightarrow> bool" where
  "is_IntegrityError (Sqlite3_IntegrityError m) = True"
| "is_IntegrityError e = False"

subsection \<open>The Channel object and the tables\<close>

text \<open>
  The instance attributes \<open>id\<close>, \<open>_name\<close>, \<open>_attributes\<close> and \<open>_group_id\<close>. \<open>None\<close> in
  \<open>ch_id\<close> is an object the store has not given an identifier yet; \<open>None\<close> in \<open>ch_name\<close>
  or \<open>ch_group_id\<close> is Python's \<open>None\<close> passed to the constructor. Values of other types
  for \<open>name\<close> and \<open>group_id\<close> are outside the model.
\<close>

record Channel =
  ch_id :: "int option"
  ch_name :: "string option"
  ch_attributes :: pyval
  ch_group_id :: "int option"

text \<open>
  A row of the table \<open>channels\<close> as lines 21 to 24 declare it: \<open>id\<close> is the integer
  primary key, \<open>_name\<close> and \<open>_group_id\<close> are not nullable, \<open>_attributes\<close> is a nullable
  JSON value.
\<close>

record channel_row =
  row_id :: int
  row_name :: string
  row_attributes :: pyval
  row_group_id :: int

text \<open>
  Modelled from the spec: the class \<open>Group\<close> of \<open>model.group\<close> is not among the
  sources. The module uses a group's \<open>id\<close> and filters groups by \<open>_name\<close>; the spec
  describes a Group as an entity resolvable by name whose identifier a Channel references.
\<close>

record Group =
  g_id :: int
  g_name :: string

text \<open>
  What the storage engine reports for a commit beyond the checks of the declared columns:
  a uniqueness conflict of the physical table, or a failure of the engine itself.
\<close>

datatype db_fault = Unique_conflict | Engine_failure

text \<open>The lines the seeder prints, by their format string and the value formatted.\<close>

datatype out_line =
    Record_created Channel
  | Records_exist "string option"

text \<open>
  Modelled from the spec: \<open>app\<close> and \<open>db\<close> come from the module \<open>__init__\<close>, which is not
  among the sources. The world holds the two tables, the session's pending objects
  (\<open>db.session.new\<close>), and standard output. Whether the engine enforces the declared
  foreign key is a setting of that module (\<open>foreign_keys\<close>). \<open>engine\<close> lists what the
  storage engine will report for the coming commits, one entry a commit: \<open>None\<close> when it
  works, a fault otherwise; past the end of the list it works.
\<close>

record world =
  tbl_groups :: "Group list"
  tbl_channels :: "channel_row list"
  foreign_keys :: bool
  session_new :: "Channel list"
  engine :: "db_fault option list"
  stdout :: "out_line list"

subsection \<open>The session\<close>

text \<open>The identifier the store gives a new row: one more than the largest in use, or 1.\<close>

definition next_id :: "channel_row list \<Rightarrow> int" where
  "next_id rows =
     (case rows of [] \<Rightarrow> 1 | r # rs \<Rightarrow> fold max (map row_id rs) (row_id r) + 1)"

text \<open>
  The INSERT of one pending object, with the checks of the declared columns: the primary
  key is unique, \<open>_name\<close> and \<open>_group_id\<close> are NOT NULL, and \<open>_group_id\<close> references
  \<open>groups.id\<close> when the engine enforces foreign keys. A rejected row is raised by the
  session as \<open>sqlalchemy.exc.IntegrityError\<close>.
\<close>

definition insert_row ::
  "bool \<Rightarrow> Group list \<Rightarrow> channel_row list \<Rightarrow> Channel \<Rightarrow> exn + channel_row" where
  "insert_row fk gs rows c =
     (case ch_name c of
        None \<Rightarrow> Inl (SA_IntegrityError ''NOT NULL constraint failed: channels._name'')
      | Some n \<Rightarrow>
          (case ch_group_id c of
             None \<Rightarrow> Inl (SA_IntegrityError ''NOT NULL constraint failed: channels._group_id'')
           | Some g \<Rightarrow>
               if fk \<and> g \<notin> set (map g_id gs)
               then Inl (SA_IntegrityError ''FOREIGN KEY constraint failed'')
               else
                 (case ch_id c of
                    None \<Rightarrow>
                      Inr \<lparr>row_id = next_id rows, row_name = n,
                           row_attributes = ch_attributes c, row_group_id = g\<rparr>
                  | Some i \<Rightarrow>
                      if i \<in> set (map row_id rows)
                      then Inl (SA_IntegrityError ''UNIQUE constraint failed: channels.id'')
                      else
                        Inr \<lparr>row_id = i, row_name = n,
                             row_attributes = ch_attributes c, row_group_id = g\<rparr>)))"

text \<open>
  The flush of the pending objects, in the order they were added, inside one transaction:
  the first rejected row fails the whole flush. On success it returns the table and the
  objects with their identifiers.
\<close>

fun flush ::
  "bool \<Rightarrow> Group list \<Rightarrow> channel_row list \<Rightarrow> Channel list \<Rightarrow>
     exn + (channel_row list \<times> Channel list)" where
  "flush fk gs rows [] = Inr (rows, [])"
| "flush fk gs rows (c # cs) =
     (case insert_row fk gs rows c of
        Inl e \<Rightarrow> Inl e
      | Inr r \<Rightarrow>
          (case flush fk gs (rows @ [r]) cs of
             Inl e \<Rightarrow> Inl e
           | Inr (rows', cs') \<Rightarrow> Inr (rows', c\<lparr>ch_id := Some (row_id r)\<rparr> # cs')))"

text \<open>The session wraps what the engine reports in its own exception classes.\<close>

fun wrap_fault :: "db_fault \<Rightarrow> exn" where
  "wrap_fault Unique_conflict = SA_IntegrityError ''UNIQUE constraint failed''"
| "wrap_fault Engine_failure = SA_OperationalError ''database is locked''"

text \<open>\<open>db.session.add(obj)\<close>: the object becomes pending. The call itself does not raise.\<close>

definition session_add :: "Channel \<Rightarrow> world \<Rightarrow> world" where
  "session_add c w = w\<lparr>session_new := session_new w @ [c]\<rparr>"

text \<open>
  \<open>db.session.commit()\<close>: flush the pending objects and commit the transaction. When it
  raises, the tables are as before and the objects are still pending.
\<close>

definition session_commit :: "world \<Rightarrow> (exn + Channel list) \<times> world" where
  "session_commit w =
     (case engine w of
        Some f # fs \<Rightarrow> (Inl (wrap_fault f), w\<lparr>engine := fs\<rparr>)
      | _ \<Rightarrow>
          (case flush (foreign_keys w) (tbl_groups w) (tbl_channels w) (session_new w) of
             Inl e \<Rightarrow> (Inl e, w\<lparr>engine := tl (engine w)\<rparr>)
           | Inr (rows, objs) \<Rightarrow>
               (Inr objs, w\<lparr>tbl_channels := rows, session_new := [], engine := tl (engine w)\<rparr>)))"

text \<open>\<open>db.session.rollback()\<close>: the pending objects are expunged; the tables stay.\<close>

definition session_rollback :: "world \<Rightarrow> world" where
  "session_rollback w = w\<lparr>session_new := []\<rparr>"

text \<open>The receiver after a commit that flushed it last: the object with its identifier.\<close>

definition flushed_self :: "Channel \<Rightarrow> Channel list \<Rightarrow> Channel" where
  "flushed_self self objs = (case rev objs of [] \<Rightarrow> self | c # cs \<Rightarrow> c)"

text \<open>\<open>print(...)\<close>.\<close>

definition print :: "out_line \<Rightarrow> world \<Rightarrow> world" where
  "print l w = w\<lparr>stdout := stdout w @ [l]\<rparr>"

subsection \<open>The methods of Channel\<close>

text \<open>
  \<open>__init__(self, name, group_id, attributes=None)\<close>. The third argument is optional:
  \<open>None\<close> here is the argument left out, which takes the default, Python's \<open>None\<close>.
\<close>

definition Channel_init :: "string option \<Rightarrow> int option \<Rightarrow> pyval option \<Rightarrow> Channel" where
  "Channel_init name group_id attributes =
     (let attributes = (case attributes of None \<Rightarrow> PNone | Some a \<Rightarrow> a) in
      \<lparr>ch_id = None,
       ch_name = name,
       ch_attributes = py_or attributes (PDict []),
       ch_group_id = group_id\<rparr>)"

text \<open>The property \<open>name\<close>.\<close>

definition name :: "Channel \<Rightarrow> string option" where
  "name self = ch_name self"

text \<open>\<open>create(self)\<close>.\<close>

definition create :: "Channel \<Rightarrow> world \<Rightarrow> (exn + unit) \<times> Channel \<times> world" where
  "create self w =
     (case session_commit (session_add self w) of
        (Inr objs, w') \<Rightarrow> (Inr (), flushed_self self objs, w')
      | (Inl e, w') \<Rightarrow>
          if is_Exception e then (Inl e, self, session_rollback w')
          else (Inl e, self, w'))"

text \<open>\<open>read(self)\<close>: the dictionary, as its items in order.\<close>

definition read :: "Channel \<Rightarrow> world \<Rightarrow> (string \<times> pyval) list \<times> Channel \<times> world" where
  "read self w =
     ([(''id'', py_int (ch_id self)),
       (''name'', py_str (ch_name self)),
       (''attributes'', ch_attributes self),
       (''group_id'', py_int (ch_group_id self))],
      self, w)"

subsection \<open>The seeder\<close>

text \<open>\<open>Group.query.filter_by(_name=n).first()\<close>: the first group of that name, or \<open>None\<close>.\<close>

definition first_by_name :: "string \<Rightarrow> world \<Rightarrow> Group option" where
  "first_by_name n w = find (\<lambda>g. g_name g = n) (tbl_groups w)"

text \<open>\<open>g.id\<close> on the result of a lookup: an AttributeError on \<open>None\<close>.\<close>

fun dot_id :: "Group option \<Rightarrow> exn + int" where
  "dot_id None = Inl (AttributeError ''NoneType object has no attribute id'')"
| "dot_id (Some g) = Inr (g_id g)"

text \<open>
  A list display \<open>[Channel(name=n, group_id=g.id), ...]\<close>: the elements are built from
  left to right, and the first \<open>g.id\<close> that raises ends the evaluation.
\<close>

fun channel_list :: "(string \<times> Group option) list \<Rightarrow> exn + Channel list" where
  "channel_list [] = Inr []"
| "channel_list ((n, g) # ps) =
     (case dot_id g of
        Inl e \<Rightarrow> Inl e
      | Inr i \<Rightarrow>
          (case channel_list ps of
             Inl e \<Rightarrow> Inl e
           | Inr cs \<Rightarrow> Inr (Channel_init (Some n) (Some i) None # cs)))"

text \<open>The loop \<open>for channel in channels\<close> of \<open>initChannels\<close>.\<close>

fun seed_loop :: "Channel list \<Rightarrow> world \<Rightarrow> (exn + unit) \<times> world" where
  "seed_loop [] w = (Inr (), w)"
| "seed_loop (channel # channels) w =
     (case session_commit (session_add channel w) of
        (Inr objs, w') \<Rightarrow>
          seed_loop channels (print (Record_created (flushed_self channel objs)) w')
      | (Inl e, w') \<Rightarrow>
          if is_IntegrityError e
          then seed_loop channels (print (Records_exist (name channel)) (session_rollback w'))
          else (Inl e, w'))"

text \<open>
  \<open>initChannels()\<close>. \<open>db.create_all()\<close> creates the tables that are missing; the world
  always has both tables, so it is left as it is.
\<close>

definition initChannels :: "world \<Rightarrow> (exn + unit) \<times> world" where
  "initChannels w =
     (let general = first_by_name ''General'' w;
          support = first_by_name ''Support'' w
      in case channel_list
           [(''Announcements'', general),
            (''Events'', general),
            (''FAQ'', support),
            (''Help Desk'', support)] of
        Inl e \<Rightarrow> (Inl e, w)
      | Inr home_page_channels \<Rightarrow>
          (let limitless_connection = first_by_name ''Limitless Connections'' w;
               dnhs_football = first_by_name ''DNHS Football'' w;
               school_subjects = first_by_name ''School Subjects'' w;
               music = first_by_name ''Music'' w;
               satire = first_by_name ''Satire'' w;
               activity_hub = first_by_name ''Activity Hub'' w
           in case channel_list
                [(''Penpal Letters'', limitless_connection),
                 (''Game vs Poway'', dnhs_football),
                 (''Game vs Westview'', dnhs_football),
                 (''Math'', school_subjects),
                 (''English'', school_subjects),
                 (''Artist'', music),
                 (''Music Genre'', music),
                 (''Humor'', satire),
                 (''Memes'', satire),
                 (''Irony'', satire),
                 (''Cyber Patriots'', activity_hub),
                 (''Robotics'', activity_hub)] of
             Inl e \<Rightarrow> (Inl e, w)
           | Inr shared_interest_channels \<Rightarrow>
               seed_loop (home_page_channels @ shared_interest_channels) w))"

subsection \<open>What a run of the seeder is compared with\<close>

text \<open>
  The channel names of the two list displays of \<open>initChannels\<close> (lines 113 to 118 and 127
  to 140), in the order \<open>home_page_channels + shared_interest_channels\<close>, each with the
  name by which its group variable was looked up (lines 111, 112 and 121 to 126).
\<close>

definition seed_pairs :: "(string \<times> string) list" where
  "seed_pairs =
     [(''Announcements'', ''General''),
      (''Events'', ''General''),
      (''FAQ'', ''Support''),
      (''Help Desk'', ''Support''),
      (''Penpal Letters'', ''Limitless Connections''),
      (''Game vs Poway'', ''DNHS Football''),
      (''Game vs Westview'', ''DNHS Football''),
      (''Math'', ''School Subjects''),
      (''English'', ''School Subjects''),
      (''Artist'', ''Music''),
      (''Music Genre'', ''Music''),
      (''Humor'', ''Satire''),
      (''Memes'', ''Satire''),
      (''Irony'', ''Satire''),
      (''Cyber Patriots'', ''Activity Hub''),
      (''Robotics'', ''Activity Hub'')]"

text \<open>The call \<open>Channel(name=n, group_id=g)\<close> for a pair \<open>(n, g)\<close>.\<close>

definition new_channel :: "string \<times> int \<Rightarrow> Channel" where
  "new_channel p = Channel_init (Some (fst p)) (Some (snd p)) None"

text \<open>
  The rows that inserting such channels one after the other adds to a table whose next
  identifier is \<open>i\<close>: consecutive identifiers, in the order of the list.
\<close>

fun persisted :: "int \<Rightarrow> (string \<times> int) list \<Rightarrow> channel_row list" where
  "persisted i [] = []"
| "persisted i ((n, g) # ps) =
     \<lparr>row_id = i, row_name = n, row_attributes = PDict [], row_group_id = g\<rparr>
       # persisted (i + 1) ps"

text \<open>The object whose fields are those of a row: a channel after the flush that wrote it.\<close>

definition object_of :: "channel_row \<Rightarrow> Channel" where
  "object_of r =
     \<lparr>ch_id = Some (row_id r), ch_name = Some (row_name r),
      ch_attributes = row_attributes r, ch_group_id = Some (row_group_id r)\<rparr>"

subsection \<open>An example store\<close>

text \<open>
  A store that holds the eight groups the seeder looks up and no channel, with foreign
  keys enforced, a clean session and a working engine.
\<close>

definition example_groups :: "Group list" where
  "example_groups =
     [\<lparr>g_id = 1, g_name = ''General''\<rparr>, \<lparr>g_id = 2, g_name = ''Support''\<rparr>,
      \<lparr>g_id = 3, g_name = ''Limitless Connections''\<rparr>,
      \<lparr>g_id = 4, g_name = ''DNHS Football''\<rparr>,
      \<lparr>g_id = 5, g_name = ''School Subjects''\<rparr>, \<lparr>g_id = 6, g_name = ''Music''\<rparr>,
      \<lparr>g_id = 7, g_name = ''Satire''\<rparr>, \<lparr>g_id = 8, g_name = ''Activity Hub''\<rparr>]"

definition example_world :: world where
  "example_world =
     \<lparr>tbl_groups = example_groups, tbl_channels = [], foreign_keys = True,
      session_new = [], engine = [], stdout = []\<rparr>"

section \<open>The constructor and read\<close>

text \<open>
  C6. A Channel constructed with the attributes argument left out has the empty mapping
  in its attributes field, not \<open>None\<close>.
\<close>

theorem Channel_init_default_attributes:
  "ch_attributes (Channel_init nm gid None) = PDict []
   \<and> ch_attributes (Channel_init nm gid None) \<noteq> PNone"
  by (simp add: Channel_init_def py_or_def)

text \<open>
  C9. \<open>read\<close> returns a dictionary with exactly the keys \<open>id\<close>, \<open>name\<close>, \<open>attributes\<close>
  and \<open>group_id\<close>, whose values are the object's current fields, and leaves the object
  and the world as they were.
\<close>

theorem read_is_pure:
  "snd (read self w) = (self, w)
   \<and> map fst (fst (read self w)) = [''id'', ''name'', ''attributes'', ''group_id'']
   \<and> map snd (fst (read self w)) =
       [py_int (ch_id self), py_str (ch_name self), ch_attributes self,
        py_int (ch_group_id self)]"
  by (simp add: read_def)

text \<open>
  C10, as the constructor has it. The attributes field is never \<open>None\<close> after
  construction: an argument left out or falsy (\<open>None\<close>, the empty mapping, and also
  \<open>False\<close>, 0, the empty string and the empty list) is replaced by the empty mapping, and
  a truthy argument is stored as it is. So \<open>read()['attributes']\<close> is a mapping whenever
  the argument was left out, falsy or a mapping. The constructor stores \<open>name\<close> and
  \<open>group_id\<close> as given, with no validation; it has no raising branch.
\<close>

theorem Channel_init_attributes_invariant:
  "ch_attributes (Channel_init nm gid attributes) \<noteq> PNone
   \<and> (\<forall>a. attributes = Some a \<and> \<not> truthy a \<longrightarrow>
         ch_attributes (Channel_init nm gid attributes) = PDict [])
   \<and> (\<forall>a. attributes = Some a \<and> truthy a \<longrightarrow>
         ch_attributes (Channel_init nm gid attributes) = a)
   \<and> (attributes = None \<longrightarrow>
         ch_attributes (Channel_init nm gid attributes) = PDict [])
   \<and> ((\<forall>a. attributes = Some a \<longrightarrow> is_dict a \<or> \<not> truthy a) \<longrightarrow>
         (\<exists>kvs. map_of (fst (read (Channel_init nm gid attributes) w)) ''attributes''
                 = Some (PDict kvs)))
   \<and> ch_name (Channel_init nm gid attributes) = nm
   \<and> ch_group_id (Channel_init nm gid attributes) = gid"
  apply (cases attributes)
   apply (simp add: Channel_init_def py_or_def read_def)
  subgoal for a
    by (cases a) (simp_all add: Channel_init_def py_or_def read_def)
  done

theorem Channel_init_attributes_invariant_witness:
  "ch_attributes (Channel_init (Some ''Math'') (Some 5) (Some (PInt 0))) = PDict []
   \<and> ch_attributes
        (Channel_init (Some ''Math'') (Some 5) (Some (PDict [(''topic'', PStr ''algebra'')])))
       = PDict [(''topic'', PStr ''algebra'')]
   \<and> map_of (fst (read (Channel_init None None (Some (PDict []))) example_world))
        ''attributes''
       = Some (PDict [])"
  using Channel_init_attributes_invariant
      [of "Some ''Math''" "Some 5" "Some (PInt 0)" example_world]
    Channel_init_attributes_invariant
      [of "Some ''Math''" "Some 5" "Some (PDict [(''topic'', PStr ''algebra'')])" example_world]
    Channel_init_attributes_invariant [of None None "Some (PDict [])" example_world]
  by (simp add: Channel_init_def py_or_def read_def)

text \<open>
  The claim as written fails on a truthy argument that is not a mapping: the list \<open>[1]\<close>
  is stored as it is, and \<open>read()['attributes']\<close> is that list.
\<close>

theorem Channel_init_attributes_counterexample:
  "map_of
     (fst (read (Channel_init (Some ''Math'') (Some 5) (Some (PList [PInt 1]))) example_world))
     ''attributes'' = Some (PList [PInt 1])
   \<and> \<not> is_dict (PList [PInt 1])"
  by (simp add: Channel_init_def py_or_def read_def)

section \<open>The session and create\<close>

lemma insert_row_Inr:
  "insert_row fk gs rows c = Inr r \<Longrightarrow>
     ch_name c = Some (row_name r) \<and> ch_group_id c = Some (row_group_id r)
     \<and> row_attributes r = ch_attributes c"
  by (auto simp: insert_row_def split: option.splits if_splits)

lemma insert_row_Inl:
  "insert_row fk gs rows c = Inl e \<Longrightarrow> \<exists>m. e = SA_IntegrityError m"
  by (auto simp: insert_row_def split: option.splits if_splits)

lemma flush_append:
  "flush fk gs rows (xs @ ys) =
     (case flush fk gs rows xs of
        Inl e \<Rightarrow> Inl e
      | Inr (rows1, objs1) \<Rightarrow>
          (case flush fk gs rows1 ys of
             Inl e \<Rightarrow> Inl e
           | Inr (rows2, objs2) \<Rightarrow> Inr (rows2, objs1 @ objs2)))"
  by (induction xs arbitrary: rows) (auto split: sum.splits)

lemma flush_Inr:
  "flush fk gs rows cs = Inr (rows', objs) \<Longrightarrow>
     \<exists>new. rows' = rows @ new \<and> length new = length cs"
proof (induction cs arbitrary: rows rows' objs)
  case Nil
  then show ?case by simp
next
  case (Cons c cs)
  from Cons.prems obtain r rows1 objs1 where
    r: "insert_row fk gs rows c = Inr r" and
    rest: "flush fk gs (rows @ [r]) cs = Inr (rows1, objs1)" and
    eq: "rows' = rows1"
    by (auto split: sum.splits)
  from Cons.IH [OF rest] obtain new where "rows1 = (rows @ [r]) @ new" "length new = length cs"
    by blast
  with eq have "rows' = rows @ (r # new) \<and> length (r # new) = length (c # cs)" by simp
  then show ?case by blast
qed

lemma flush_Inl:
  "flush fk gs rows cs = Inl e \<Longrightarrow> \<exists>m. e = SA_IntegrityError m"
  by (induction cs arbitrary: rows) (auto split: sum.splits dest: insert_row_Inl)

lemma wrap_fault_not_caught: "\<not> is_IntegrityError (wrap_fault f)"
  by (cases f) simp_all

lemma session_commit_Inl:
  "session_commit w = (Inl e, w') \<Longrightarrow>
     \<not> is_IntegrityError e \<and> w' = w\<lparr>engine := tl (engine w)\<rparr>"
  unfolding session_commit_def
  by (auto simp: wrap_fault_not_caught split: list.splits option.splits sum.splits
           dest: flush_Inl)

lemma flushed_self_snoc: "flushed_self self (objs @ [c]) = c"
  by (simp add: flushed_self_def)

lemma engine_works:
  "\<forall>f\<in>set (take 1 (engine w)). f = None \<Longrightarrow>
     session_commit w =
       (case flush (foreign_keys w) (tbl_groups w) (tbl_channels w) (session_new w) of
             Inl e \<Rightarrow> (Inl e, w\<lparr>engine := tl (engine w)\<rparr>)
           | Inr (rows, objs) \<Rightarrow>
               (Inr objs, w\<lparr>tbl_channels := rows, session_new := [], engine := tl (engine w)\<rparr>))"
  by (cases "engine w") (auto simp: session_commit_def split: option.splits)

lemma create_clean:
  assumes "session_new w = []" and "\<forall>f\<in>set (take 1 (engine w)). f = None"
  shows "create self w =
     (case insert_row (foreign_keys w) (tbl_groups w) (tbl_channels w) self of
        Inl e \<Rightarrow> (Inl e, self, w\<lparr>engine := tl (engine w)\<rparr>)
      | Inr r \<Rightarrow>
          (Inr (), self\<lparr>ch_id := Some (row_id r)\<rparr>,
           w\<lparr>tbl_channels := tbl_channels w @ [r], engine := tl (engine w)\<rparr>))"
proof -
  have e: "\<forall>f\<in>set (take 1 (engine (session_add self w))). f = None"
    using assms(2) by (simp add: session_add_def)
  show ?thesis
    unfolding create_def engine_works [OF e]
    using assms(1)
    by (simp add: session_add_def session_rollback_def flushed_self_def split: sum.splits)
qed

text \<open>
  C2. For every Channel and every world, \<open>create\<close> has one of two outcomes. Either it
  returns normally, and then one commit has appended to the table the rows of the objects
  that were pending and, last, the row of this Channel, which carries its name, group
  identifier and attributes; nothing is left pending. Or \<open>add\<close> and \<open>commit\<close> raised an
  exception \<open>e\<close>, and then \<open>create\<close> raises that same \<open>e\<close>, the session has been rolled
  back (nothing is pending) and both tables are as they were.
\<close>

theorem create_commits_or_rolls_back:
  "(\<exists>new r.
       create self w =
         (Inr (), self\<lparr>ch_id := Some (row_id r)\<rparr>,
          w\<lparr>tbl_channels := tbl_channels w @ new @ [r], session_new := [],
            engine := tl (engine w)\<rparr>)
       \<and> length new = length (session_new w)
       \<and> ch_name self = Some (row_name r)
       \<and> ch_group_id self = Some (row_group_id r)
       \<and> row_attributes r = ch_attributes self)
   \<or> (\<exists>e.
       fst (session_commit (session_add self w)) = Inl e
       \<and> create self w = (Inl e, self, w\<lparr>session_new := [], engine := tl (engine w)\<rparr>)
       \<and> tbl_channels (snd (snd (create self w))) = tbl_channels w
       \<and> tbl_groups (snd (snd (create self w))) = tbl_groups w)"
proof (cases "session_commit (session_add self w)")
  case (Pair res w1)
  show ?thesis
  proof (cases res)
    case (Inl e)
    with Pair have w1: "w1 = (session_add self w)\<lparr>engine := tl (engine (session_add self w))\<rparr>"
      using session_commit_Inl by blast
    have "create self w = (Inl e, self, w\<lparr>session_new := [], engine := tl (engine w)\<rparr>)"
      using Pair Inl w1 by (simp add: create_def session_rollback_def session_add_def)
    then show ?thesis using Pair Inl by simp
  next
    case (Inr objs)
    let ?fl = "flush (foreign_keys w) (tbl_groups w) (tbl_channels w) (session_new w @ [self])"
    from Pair Inr obtain rows where
      fl: "?fl = Inr (rows, objs)" and
      w1: "w1 = w\<lparr>tbl_channels := rows, session_new := [], engine := tl (engine w)\<rparr>"
      by (auto simp: session_commit_def session_add_def
               split: list.splits option.splits sum.splits)
    from fl obtain rows1 objs1 r where
      f1: "flush (foreign_keys w) (tbl_groups w) (tbl_channels w) (session_new w)
             = Inr (rows1, objs1)" and
      r: "insert_row (foreign_keys w) (tbl_groups w) rows1 self = Inr r" and
      rows: "rows = rows1 @ [r]" and
      objs: "objs = objs1 @ [self\<lparr>ch_id := Some (row_id r)\<rparr>]"
      by (auto simp: flush_append split: sum.splits)
    from flush_Inr [OF f1] obtain new where
      new: "rows1 = tbl_channels w @ new" "length new = length (session_new w)"
      by blast
    have "create self w =
         (Inr (), self\<lparr>ch_id := Some (row_id r)\<rparr>,
          w\<lparr>tbl_channels := tbl_channels w @ new @ [r], session_new := [],
            engine := tl (engine w)\<rparr>)"
      using Pair Inr w1 rows objs new by (simp add: create_def flushed_self_snoc)
    with new insert_row_Inr [OF r] show ?thesis by blast
  qed
qed

theorem create_commits_or_rolls_back_witness:
  "create (Channel_init (Some ''Math'') (Some 5) None) example_world =
     (Inr (), \<lparr>ch_id = Some 1, ch_name = Some ''Math'', ch_attributes = PDict [],
               ch_group_id = Some 5\<rparr>,
      example_world\<lparr>tbl_channels :=
        [\<lparr>row_id = 1, row_name = ''Math'', row_attributes = PDict [], row_group_id = 5\<rparr>]\<rparr>)
   \<and> create (Channel_init (Some ''Math'') (Some 5) None)
       (example_world\<lparr>engine := [Some Engine_failure]\<rparr>) =
     (Inl (SA_OperationalError ''database is locked''),
      Channel_init (Some ''Math'') (Some 5) None, example_world)"
  using create_commits_or_rolls_back [of "Channel_init (Some ''Math'') (Some 5) None" example_world]
    create_commits_or_rolls_back [of "Channel_init (Some ''Math'') (Some 5) None"
      "example_world\<lparr>engine := [Some Engine_failure]\<rparr>"]
  by (simp add: create_def session_commit_def session_add_def session_rollback_def
        flushed_self_def insert_row_def next_id_def Channel_init_def py_or_def
        example_world_def example_groups_def)

text \<open>
  C5. Let \<open>gid\<close> be the identifier of an existing group, \<open>nm\<close> any name, and the
  attributes argument a mapping or left out. On a clean session and a working engine,
  constructing the Channel and persisting it succeeds, and \<open>read\<close> of the persisted
  object returns the assigned identifier, the same name, the same group identifier and
  the supplied mapping, or the empty mapping when the argument was left out. The stored
  row holds the same values.
\<close>

theorem construct_persist_read:
  assumes "gid \<in> set (map g_id (tbl_groups w))"
    and "session_new w = []"
    and "\<forall>f\<in>set (take 1 (engine w)). f = None"
    and "attributes = None \<or> (\<exists>kvs. attributes = Some (PDict kvs))"
  shows "\<exists>self' w'.
     create (Channel_init (Some nm) (Some gid) attributes) w = (Inr (), self', w')
     \<and> fst (read self' w') =
         [(''id'', PInt (next_id (tbl_channels w))),
          (''name'', PStr nm),
          (''attributes'', (case attributes of None \<Rightarrow> PDict [] | Some a \<Rightarrow> a)),
          (''group_id'', PInt gid)]
     \<and> tbl_channels w' = tbl_channels w @
         [\<lparr>row_id = next_id (tbl_channels w), row_name = nm,
           row_attributes = (case attributes of None \<Rightarrow> PDict [] | Some a \<Rightarrow> a),
           row_group_id = gid\<rparr>]"
proof -
  have a: "ch_attributes (Channel_init (Some nm) (Some gid) attributes)
           = (case attributes of None \<Rightarrow> PDict [] | Some a \<Rightarrow> a)"
    using assms(4) by (auto simp: Channel_init_def py_or_def)
  show ?thesis
    using assms(1) a
    by (simp add: create_clean [OF assms(2,3)] insert_row_def read_def)
       (simp add: Channel_init_def)
qed

theorem construct_persist_read_witness:
  "fst (read
     (fst (snd (create (Channel_init (Some ''Announcements'') (Some 5) None)
                  (example_world\<lparr>tbl_groups := [\<lparr>g_id = 5, g_name = ''General''\<rparr>]\<rparr>))))
     example_world) =
   [(''id'', PInt 1), (''name'', PStr ''Announcements''), (''attributes'', PDict []),
    (''group_id'', PInt 5)]"
  using construct_persist_read [of 5 "example_world\<lparr>tbl_groups := [\<lparr>g_id = 5, g_name = ''General''\<rparr>]\<rparr>"
      None "''Announcements''"]
  by (simp add: example_world_def read_def next_id_def create_clean insert_row_def Channel_init_def py_or_def)

text \<open>
  C3, as the code has it. The constructor stores \<open>name\<close> and \<open>group_id\<close> as given and
  checks nothing. At persist time, on a clean session and a working engine, the store
  rejects with the session's IntegrityError, writing no row, a Channel whose name is
  \<open>None\<close>, one whose group identifier is \<open>None\<close>, and, when the engine enforces foreign
  keys, one whose group identifier is not that of an existing group. Every other Channel
  is persisted: the name may be the empty string, and without foreign-key enforcement the
  group identifier may reference no group.
\<close>

theorem persist_time_checks:
  assumes "session_new w = []"
    and "\<forall>f\<in>set (take 1 (engine w)). f = None"
  shows "ch_name (Channel_init nm gid a) = nm
     \<and> ch_group_id (Channel_init nm gid a) = gid
     \<and> (nm = None \<longrightarrow>
          create (Channel_init nm gid a) w =
            (Inl (SA_IntegrityError ''NOT NULL constraint failed: channels._name''),
             Channel_init nm gid a, w\<lparr>engine := tl (engine w)\<rparr>))
     \<and> (nm \<noteq> None \<and> gid = None \<longrightarrow>
          create (Channel_init nm gid a) w =
            (Inl (SA_IntegrityError ''NOT NULL constraint failed: channels._group_id''),
             Channel_init nm gid a, w\<lparr>engine := tl (engine w)\<rparr>))
     \<and> (\<forall>g. nm \<noteq> None \<and> gid = Some g \<and> foreign_keys w \<and> g \<notin> set (map g_id (tbl_groups w)) \<longrightarrow>
          create (Channel_init nm gid a) w =
            (Inl (SA_IntegrityError ''FOREIGN KEY constraint failed''),
             Channel_init nm gid a, w\<lparr>engine := tl (engine w)\<rparr>))
     \<and> (\<forall>n g. nm = Some n \<and> gid = Some g
              \<and> (foreign_keys w \<longrightarrow> g \<in> set (map g_id (tbl_groups w))) \<longrightarrow>
          fst (create (Channel_init nm gid a) w) = Inr ()
          \<and> tbl_channels (snd (snd (create (Channel_init nm gid a) w))) =
              tbl_channels w @
                [\<lparr>row_id = next_id (tbl_channels w), row_name = n,
                  row_attributes = ch_attributes (Channel_init nm gid a),
                  row_group_id = g\<rparr>])"
  by (auto simp: create_clean [OF assms] insert_row_def Channel_init_def)

theorem persist_time_checks_witness:
  "create (Channel_init None (Some 1) None) example_world =
     (Inl (SA_IntegrityError ''NOT NULL constraint failed: channels._name''),
      Channel_init None (Some 1) None, example_world)
   \<and> create (Channel_init (Some ''Math'') (Some 99) None) example_world =
     (Inl (SA_IntegrityError ''FOREIGN KEY constraint failed''),
      Channel_init (Some ''Math'') (Some 99) None, example_world)
   \<and> fst (create (Channel_init (Some ''Math'') (Some 99) None)
            (example_world\<lparr>foreign_keys := False\<rparr>)) = Inr ()"
  using persist_time_checks [of example_world None "Some 1" None]
    persist_time_checks [of example_world "Some ''Math''" "Some 99" None]
    persist_time_checks [of "example_world\<lparr>foreign_keys := False\<rparr>" "Some ''Math''" "Some 99" None]
  by (simp add: example_world_def example_groups_def)

text \<open>
  The claim as written fails on the empty name: the column is declared
  \<open>nullable=False\<close>, which rejects \<open>None\<close> and not the empty string, so the Channel is
  persisted.
\<close>

theorem empty_name_persists_counterexample:
  "fst (create (Channel_init (Some '''') (Some 1) None) example_world) = Inr ()
   \<and> map row_name (tbl_channels (snd (snd
        (create (Channel_init (Some '''') (Some 1) None) example_world)))) = ['''']"
  by (simp add: create_clean insert_row_def Channel_init_def py_or_def example_world_def
        example_groups_def)

section \<open>The seeder\<close>

subsection \<open>The loop on channels the store accepts\<close>

lemma next_id_snoc:
  "row_id r = next_id rows \<Longrightarrow> next_id (rows @ [r]) = next_id rows + 1"
  by (cases rows) (simp_all add: next_id_def)

lemma persisted_attributes: "r \<in> set (persisted i ps) \<Longrightarrow> row_attributes r = PDict []"
  by (induction i ps rule: persisted.induct) auto

lemma persisted_ids: "map row_id (persisted i ps) = map (\<lambda>k. i + int k) [0..<length ps]"
proof (induction i ps rule: persisted.induct)
  case (1 i)
  show ?case by simp
next
  case (2 i n g ps)
  have "[0..<length ((n, g) # ps)] = 0 # map Suc [0..<length ps]"
    by (simp add: upt_conv_Cons map_Suc_upt del: upt_Suc)
  with 2 show ?case by (simp add: comp_def)
qed

lemma seed_step:
  assumes "session_new w = []" and "\<forall>f\<in>set (take 1 (engine w)). f = None"
    and "foreign_keys w \<longrightarrow> g \<in> set (map g_id (tbl_groups w))"
  shows "session_commit (session_add (new_channel (n, g)) w) =
     (Inr [object_of \<lparr>row_id = next_id (tbl_channels w), row_name = n,
                       row_attributes = PDict [], row_group_id = g\<rparr>],
      w\<lparr>tbl_channels := tbl_channels w @
           [\<lparr>row_id = next_id (tbl_channels w), row_name = n,
             row_attributes = PDict [], row_group_id = g\<rparr>],
        session_new := [], engine := tl (engine w)\<rparr>)"
proof -
  have e: "\<forall>f\<in>set (take 1 (engine (session_add (new_channel (n, g)) w))). f = None"
    using assms(2) by (simp add: session_add_def)
  show ?thesis
    unfolding engine_works [OF e]
    using assms(1,3)
    by (simp add: session_add_def insert_row_def new_channel_def Channel_init_def py_or_def
          object_of_def)
qed

lemma seed_loop_ok:
  assumes "session_new w = []"
    and "\<forall>f\<in>set (take (length ps) (engine w)). f = None"
    and "foreign_keys w \<longrightarrow> (\<forall>p\<in>set ps. snd p \<in> set (map g_id (tbl_groups w)))"
  shows "seed_loop (map new_channel ps) w =
     (Inr (),
      w\<lparr>tbl_channels := tbl_channels w @ persisted (next_id (tbl_channels w)) ps,
        session_new := [],
        engine := drop (length ps) (engine w),
        stdout := stdout w @
          map (\<lambda>r. Record_created (object_of r)) (persisted (next_id (tbl_channels w)) ps)\<rparr>)"
  using assms
proof (induction ps arbitrary: w)
  case Nil
  then show ?case by simp
next
  case (Cons p ps)
  obtain n g where p: "p = (n, g)" by (cases p)
  let ?r = "\<lparr>row_id = next_id (tbl_channels w), row_name = n,
             row_attributes = PDict [], row_group_id = g\<rparr>"
  let ?w1 = "print (Record_created (object_of ?r))
     (w\<lparr>tbl_channels := tbl_channels w @ [?r], session_new := [], engine := tl (engine w)\<rparr>)"
  have e1: "\<forall>f\<in>set (take 1 (engine w)). f = None"
    using Cons.prems(2) by (cases "engine w") auto
  have fk: "foreign_keys w \<longrightarrow> g \<in> set (map g_id (tbl_groups w))"
    using Cons.prems(3) p by auto
  have step: "seed_loop (map new_channel (p # ps)) w = seed_loop (map new_channel ps) ?w1"
    using seed_step [OF Cons.prems(1) e1 fk] p by (simp add: flushed_self_def)
  have a1: "session_new ?w1 = []" by (simp add: print_def)
  have a2: "\<forall>f\<in>set (take (length ps) (engine ?w1)). f = None"
    using Cons.prems(2) by (cases "engine w") (auto simp: print_def)
  have a3: "foreign_keys ?w1 \<longrightarrow> (\<forall>p\<in>set ps. snd p \<in> set (map g_id (tbl_groups ?w1)))"
    using Cons.prems(3) by (simp add: print_def)
  have n1: "next_id (tbl_channels ?w1) = next_id (tbl_channels w) + 1"
    by (simp add: print_def next_id_snoc)
  show ?case
    unfolding step Cons.IH [OF a1 a2 a3] n1
    by (simp add: p print_def drop_Suc)
qed

lemma seed_loop_append:
  "seed_loop (xs @ ys) w =
     (case seed_loop xs w of (Inl e, w') \<Rightarrow> (Inl e, w') | (Inr u, w') \<Rightarrow> seed_loop ys w')"
  by (induction xs arbitrary: w) (auto split: prod.splits sum.splits)

lemma persisted_pairs:
  "map (\<lambda>r. (row_name r, Some (row_group_id r))) (persisted i ps) =
     map (\<lambda>p. (fst p, Some (snd p))) ps"
  by (induction i ps rule: persisted.induct) simp_all

lemma length_seed_pairs: "length seed_pairs = 16"
  by (simp add: seed_pairs_def)

lemma seed_fault:
  assumes "engine w = Some f # fs"
  shows "seed_loop (c # cs) w =
     (Inl (wrap_fault f), w\<lparr>session_new := session_new w @ [c], engine := fs\<rparr>)"
  using assms
  by (simp add: session_commit_def session_add_def wrap_fault_not_caught)

lemma seed_loop_fault:
  assumes "session_new w = []"
    and "engine w = replicate k None @ Some f # fs"
    and "k < length ps"
    and "foreign_keys w \<longrightarrow> (\<forall>p\<in>set ps. snd p \<in> set (map g_id (tbl_groups w)))"
  shows "seed_loop (map new_channel ps) w =
     (Inl (wrap_fault f),
      w\<lparr>tbl_channels := tbl_channels w @ persisted (next_id (tbl_channels w)) (take k ps),
        session_new := [new_channel (ps ! k)],
        engine := fs,
        stdout := stdout w @
          map (\<lambda>r. Record_created (object_of r))
            (persisted (next_id (tbl_channels w)) (take k ps))\<rparr>)"
proof -
  let ?w1 = "w\<lparr>tbl_channels := tbl_channels w @ persisted (next_id (tbl_channels w)) (take k ps),
        session_new := [],
        engine := drop (length (take k ps)) (engine w),
        stdout := stdout w @
          map (\<lambda>r. Record_created (object_of r))
            (persisted (next_id (tbl_channels w)) (take k ps))\<rparr>"
  have len: "length (take k ps) = k" using assms(3) by simp
  have a2: "\<forall>f\<in>set (take (length (take k ps)) (engine w)). f = None"
    unfolding len assms(2) by simp
  have a3: "foreign_keys w \<longrightarrow> (\<forall>p\<in>set (take k ps). snd p \<in> set (map g_id (tbl_groups w)))"
    using assms(4) by (auto dest: in_set_takeD)
  have first: "seed_loop (map new_channel (take k ps)) w = (Inr (), ?w1)"
    by (rule seed_loop_ok [OF assms(1) a2 a3])
  have e1: "engine ?w1 = Some f # fs"
    unfolding len by (simp add: assms(2))
  have dr: "map new_channel (drop k ps) = new_channel (ps ! k) # map new_channel (drop (Suc k) ps)"
    using assms(3) by (simp add: Cons_nth_drop_Suc [symmetric])
  have "seed_loop (map new_channel ps) w =
          seed_loop (map new_channel (take k ps) @ map new_channel (drop k ps)) w"
    by (simp add: map_append [symmetric] del: map_append)
  also have "\<dots> = seed_loop (map new_channel (drop k ps)) ?w1"
    unfolding seed_loop_append first by simp
  also have "\<dots> = (Inl (wrap_fault f), ?w1\<lparr>session_new := session_new ?w1 @ [new_channel (ps ! k)], engine := fs\<rparr>)"
    unfolding dr by (rule seed_fault [OF e1])
  finally show ?thesis by simp
qed

subsection \<open>The lookups and the list displays\<close>

lemma channel_list_Inl:
  "channel_list ps = Inl e \<Longrightarrow> e = AttributeError ''NoneType object has no attribute id''"
proof (induction ps)
  case Nil
  then show ?case by simp
next
  case (Cons p ps)
  obtain n g where p: "p = (n, g)" by (cases p)
  show ?case
  proof (cases g)
    case None
    with Cons.prems p show ?thesis by simp
  next
    case (Some a)
    with Cons.prems p have "channel_list ps = Inl e" by (simp split: sum.splits)
    then show ?thesis by (rule Cons.IH)
  qed
qed

lemma first_by_name_Some:
  "first_by_name n w = Some g \<Longrightarrow> g_id g \<in> set (map g_id (tbl_groups w))"
  by (auto simp: first_by_name_def find_Some_iff)

lemma first_by_name_None:
  "first_by_name n w = None \<longleftrightarrow> n \<notin> set (map g_name (tbl_groups w))"
  by (auto simp: first_by_name_def find_None_iff)

lemma channel_list_None:
  "None \<in> set (map snd ps) \<Longrightarrow>
     channel_list ps = Inl (AttributeError ''NoneType object has no attribute id'')"
proof (induction ps)
  case Nil
  then show ?case by simp
next
  case (Cons p ps)
  obtain n g where p: "p = (n, g)" by (cases p)
  show ?case
  proof (cases g)
    case None
    with p show ?thesis by simp
  next
    case (Some a)
    with Cons p show ?thesis by (cases "channel_list ps") auto
  qed
qed

lemma seed_group_names:
  "set (map snd seed_pairs) =
     {''General'', ''Support'', ''Limitless Connections'', ''DNHS Football'',
      ''School Subjects'', ''Music'', ''Satire'', ''Activity Hub''}"
  unfolding seed_pairs_def by (simp add: insert_commute)

lemma initChannels_absent:
  assumes "gn \<in> set (map snd seed_pairs)" and "first_by_name gn w = None"
  shows "initChannels w = (Inl (AttributeError ''NoneType object has no attribute id''), w)"
proof -
  let ?home = "[(''Announcements'', first_by_name ''General'' w),
            (''Events'', first_by_name ''General'' w),
            (''FAQ'', first_by_name ''Support'' w),
            (''Help Desk'', first_by_name ''Support'' w)]"
  let ?shared = "[(''Penpal Letters'', first_by_name ''Limitless Connections'' w),
                 (''Game vs Poway'', first_by_name ''DNHS Football'' w),
                 (''Game vs Westview'', first_by_name ''DNHS Football'' w),
                 (''Math'', first_by_name ''School Subjects'' w),
                 (''English'', first_by_name ''School Subjects'' w),
                 (''Artist'', first_by_name ''Music'' w),
                 (''Music Genre'', first_by_name ''Music'' w),
                 (''Humor'', first_by_name ''Satire'' w),
                 (''Memes'', first_by_name ''Satire'' w),
                 (''Irony'', first_by_name ''Satire'' w),
                 (''Cyber Patriots'', first_by_name ''Activity Hub'' w),
                 (''Robotics'', first_by_name ''Activity Hub'' w)]"
  have unfold: "initChannels w =
     (case channel_list ?home of
        Inl e \<Rightarrow> (Inl e, w)
      | Inr home \<Rightarrow>
          (case channel_list ?shared of
             Inl e \<Rightarrow> (Inl e, w)
           | Inr shared \<Rightarrow> seed_loop (home @ shared) w))"
    by (simp only: initChannels_def Let_def)
  have names: "set (map snd ?home) \<union> set (map snd ?shared) =
      (\<lambda>n. first_by_name n w) ` set (map snd seed_pairs)"
    unfolding seed_group_names by (simp add: insert_commute)
  from assms have "None \<in> (\<lambda>n. first_by_name n w) ` set (map snd seed_pairs)"
    by (metis imageI)
  then have mem: "None \<in> set (map snd ?home) \<or> None \<in> set (map snd ?shared)"
    unfolding names [symmetric] by (simp only: Un_iff)
  show ?thesis
  proof (cases "channel_list ?home")
    case (Inl e)
    with channel_list_Inl [OF Inl] show ?thesis unfolding unfold by simp
  next
    case home: (Inr home)
    have "None \<notin> set (map snd ?home)"
      using channel_list_None [of ?home] home by (metis sum.distinct(1))
    with mem have "None \<in> set (map snd ?shared)" by (simp only: simp_thms)
    from channel_list_None [OF this] home show ?thesis unfolding unfold by simp
  qed
qed

lemma initChannels_resolved:
  assumes "\<forall>gn\<in>set (map snd seed_pairs). first_by_name gn w \<noteq> None"
  shows "\<exists>ps. initChannels w = seed_loop (map new_channel ps) w
     \<and> map (\<lambda>p. (fst p, Some (snd p))) ps =
         map (\<lambda>(cn, gn). (cn, map_option g_id (first_by_name gn w))) seed_pairs
     \<and> (\<forall>p\<in>set ps. snd p \<in> set (map g_id (tbl_groups w)))"
proof -
  from assms obtain general support limitless_connection dnhs_football school_subjects
      music satire activity_hub where
    g: "first_by_name ''General'' w = Some general"
       "first_by_name ''Support'' w = Some support"
       "first_by_name ''Limitless Connections'' w = Some limitless_connection"
       "first_by_name ''DNHS Football'' w = Some dnhs_football"
       "first_by_name ''School Subjects'' w = Some school_subjects"
       "first_by_name ''Music'' w = Some music"
       "first_by_name ''Satire'' w = Some satire"
       "first_by_name ''Activity Hub'' w = Some activity_hub"
    unfolding seed_pairs_def by auto
  let ?ps = "[(''Announcements'', g_id general),
      (''Events'', g_id general),
      (''FAQ'', g_id support),
      (''Help Desk'', g_id support),
      (''Penpal Letters'', g_id limitless_connection),
      (''Game vs Poway'', g_id dnhs_football),
      (''Game vs Westview'', g_id dnhs_football),
      (''Math'', g_id school_subjects),
      (''English'', g_id school_subjects),
      (''Artist'', g_id music),
      (''Music Genre'', g_id music),
      (''Humor'', g_id satire),
      (''Memes'', g_id satire),
      (''Irony'', g_id satire),
      (''Cyber Patriots'', g_id activity_hub),
      (''Robotics'', g_id activity_hub)]"
  have 1: "initChannels w = seed_loop (map new_channel ?ps) w"
    by (simp add: initChannels_def g new_channel_def)
  have 2: "map (\<lambda>p. (fst p, Some (snd p))) ?ps =
         map (\<lambda>(cn, gn). (cn, map_option g_id (first_by_name gn w))) seed_pairs"
    by (simp add: seed_pairs_def g)
  have 3: "\<forall>p\<in>set ?ps. snd p \<in> set (map g_id (tbl_groups w))"
    using g [THEN first_by_name_Some] by simp
  from 1 2 3 show ?thesis by blast
qed

subsection \<open>The claims on \<open>initChannels\<close>\<close>

lemmas run_defs =
  initChannels_def first_by_name_def example_world_def example_groups_def Channel_init_def
  py_or_def session_commit_def session_add_def session_rollback_def insert_row_def next_id_def
  flushed_self_def print_def name_def

text \<open>
  C4. When a group the seeder looks up is absent from the store, the lookup yields
  \<open>None\<close>, and \<open>initChannels\<close> raises the AttributeError of \<open>.id\<close> on \<open>None\<close> while the
  list of channels is built: the lookup is used unguarded. The world is left as it was;
  no channel has been persisted.
\<close>

theorem initChannels_absent_group:
  assumes "gn \<in> set (map snd seed_pairs)"
    and "gn \<notin> set (map g_name (tbl_groups w))"
  shows "first_by_name gn w = None
     \<and> initChannels w = (Inl (AttributeError ''NoneType object has no attribute id''), w)"
proof -
  from assms(2) have "first_by_name gn w = None" by (simp add: first_by_name_None)
  with initChannels_absent [OF assms(1)] show ?thesis by simp
qed

theorem initChannels_absent_group_witness:
  "initChannels (example_world\<lparr>tbl_groups := tl example_groups\<rparr>) =
     (Inl (AttributeError ''NoneType object has no attribute id''),
      example_world\<lparr>tbl_groups := tl example_groups\<rparr>)"
  using initChannels_absent_group [of "''General''" "example_world\<lparr>tbl_groups := tl example_groups\<rparr>"]
  by (simp add: seed_pairs_def example_world_def example_groups_def)

text \<open>
  C8. When the eight groups exist, the session is clean and the engine works for sixteen
  commits, \<open>initChannels\<close> returns normally after sixteen commits of one channel each. It
  has appended sixteen rows to the table, with consecutive identifiers in the listed
  order: the four home-page channels, then the twelve shared-interest channels, each with
  its fixed name, the identifier of the group looked up by its fixed group name, and the
  empty mapping as attributes. It has printed one line for each, in the same order.
\<close>

theorem initChannels_persists_in_order:
  assumes "\<forall>gn\<in>set (map snd seed_pairs). first_by_name gn w \<noteq> None"
    and "session_new w = []"
    and "\<forall>f\<in>set (take 16 (engine w)). f = None"
  shows "\<exists>rows.
     initChannels w =
       (Inr (),
        w\<lparr>tbl_channels := tbl_channels w @ rows,
          session_new := [],
          engine := drop 16 (engine w),
          stdout := stdout w @ map (\<lambda>r. Record_created (object_of r)) rows\<rparr>)
     \<and> map (\<lambda>r. (row_name r, Some (row_group_id r))) rows =
         map (\<lambda>(cn, gn). (cn, map_option g_id (first_by_name gn w))) seed_pairs
     \<and> map row_id rows = map (\<lambda>k. next_id (tbl_channels w) + int k) [0..<16]
     \<and> (\<forall>r\<in>set rows. row_attributes r = PDict [])"
proof -
  from initChannels_resolved [OF assms(1)] obtain ps where
    run: "initChannels w = seed_loop (map new_channel ps) w" and
    ps: "map (\<lambda>p. (fst p, Some (snd p))) ps =
         map (\<lambda>(cn, gn). (cn, map_option g_id (first_by_name gn w))) seed_pairs" and
    fk: "\<forall>p\<in>set ps. snd p \<in> set (map g_id (tbl_groups w))"
    by blast
  from ps have "length (map (\<lambda>p. (fst p, Some (snd p))) ps) = length seed_pairs"
    by (simp only: length_map)
  then have len: "length ps = 16" by (simp add: length_seed_pairs)
  let ?rows = "persisted (next_id (tbl_channels w)) ps"
  have a2: "\<forall>f\<in>set (take (length ps) (engine w)). f = None"
    using assms(3) by (simp only: len)
  have a3: "foreign_keys w \<longrightarrow> (\<forall>p\<in>set ps. snd p \<in> set (map g_id (tbl_groups w)))"
    using fk by blast
  have 1: "initChannels w =
       (Inr (),
        w\<lparr>tbl_channels := tbl_channels w @ ?rows,
          session_new := [],
          engine := drop 16 (engine w),
          stdout := stdout w @ map (\<lambda>r. Record_created (object_of r)) ?rows\<rparr>)"
    unfolding run seed_loop_ok [OF assms(2) a2 a3] len ..
  have 2: "map (\<lambda>r. (row_name r, Some (row_group_id r))) ?rows =
         map (\<lambda>(cn, gn). (cn, map_option g_id (first_by_name gn w))) seed_pairs"
    unfolding persisted_pairs by (rule ps)
  have 3: "map row_id ?rows = map (\<lambda>k. next_id (tbl_channels w) + int k) [0..<16]"
    unfolding persisted_ids len ..
  have 4: "\<forall>r\<in>set ?rows. row_attributes r = PDict []"
    by (blast dest: persisted_attributes)
  from 1 2 3 4 show ?thesis by blast
qed

theorem initChannels_persists_in_order_witness:
  "fst (initChannels example_world) = Inr ()
   \<and> map row_name (tbl_channels (snd (initChannels example_world))) = map fst seed_pairs
   \<and> map row_id (tbl_channels (snd (initChannels example_world))) =
       [1, 2, 3, 4, 5, 6, 7, 8, 9, 10, 11, 12, 13, 14, 15, 16]
   \<and> map row_group_id (tbl_channels (snd (initChannels example_world))) =
       [1, 1, 2, 2, 3, 4, 4, 5, 5, 6, 6, 7, 7, 7, 8, 8]"
proof -
  have h1: "\<forall>gn\<in>set (map snd seed_pairs). first_by_name gn example_world \<noteq> None"
    by (simp add: seed_pairs_def first_by_name_def example_world_def example_groups_def)
  have h2: "session_new example_world = []"
    by (simp add: example_world_def)
  have h3: "\<forall>f\<in>set (take 16 (engine example_world)). f = None"
    by (simp add: example_world_def)
  from initChannels_persists_in_order [OF h1 h2 h3] have "fst (initChannels example_world) = Inr ()"
    by auto
  then show ?thesis
    by (simp add: run_defs seed_pairs_def)
qed

text \<open>
  C7. When the eight groups exist, the session is clean, and the engine works for the
  first \<open>k\<close> commits and reports a fault at the next one, with \<open>k < 16\<close>, then
  \<open>initChannels\<close> raises the session's exception for that fault, which the handler
  \<open>except IntegrityError\<close> does not match. Exactly the first \<open>k\<close> channels have been
  persisted and reported; the remaining ones are never committed, and what the engine held
  for later commits is still to come.
\<close>

theorem initChannels_error_propagates:
  assumes "\<forall>gn\<in>set (map snd seed_pairs). first_by_name gn w \<noteq> None"
    and "session_new w = []"
    and "engine w = replicate k None @ Some f # fs"
    and "k < 16"
  shows "fst (initChannels w) = Inl (wrap_fault f)
     \<and> \<not> is_IntegrityError (wrap_fault f)
     \<and> (\<exists>rows.
          tbl_channels (snd (initChannels w)) = tbl_channels w @ rows
          \<and> map (\<lambda>r. (row_name r, Some (row_group_id r))) rows =
              take k (map (\<lambda>(cn, gn). (cn, map_option g_id (first_by_name gn w))) seed_pairs)
          \<and> stdout (snd (initChannels w)) =
              stdout w @ map (\<lambda>r. Record_created (object_of r)) rows)
     \<and> engine (snd (initChannels w)) = fs"
proof -
  from initChannels_resolved [OF assms(1)] obtain ps where
    run: "initChannels w = seed_loop (map new_channel ps) w" and
    ps: "map (\<lambda>p. (fst p, Some (snd p))) ps =
         map (\<lambda>(cn, gn). (cn, map_option g_id (first_by_name gn w))) seed_pairs" and
    fk: "\<forall>p\<in>set ps. snd p \<in> set (map g_id (tbl_groups w))"
    by blast
  from ps have "length (map (\<lambda>p. (fst p, Some (snd p))) ps) = length seed_pairs"
    by (simp only: length_map)
  then have len: "length ps = 16" by (simp add: length_seed_pairs)
  have k: "k < length ps" using assms(4) len by simp
  have a3: "foreign_keys w \<longrightarrow> (\<forall>p\<in>set ps. snd p \<in> set (map g_id (tbl_groups w)))"
    using fk by blast
  let ?rows = "persisted (next_id (tbl_channels w)) (take k ps)"
  note res = seed_loop_fault [OF assms(2,3) k a3]
  have 2: "map (\<lambda>r. (row_name r, Some (row_group_id r))) ?rows =
       take k (map (\<lambda>(cn, gn). (cn, map_option g_id (first_by_name gn w))) seed_pairs)"
    unfolding persisted_pairs ps [symmetric] by (simp only: take_map)
  have 1: "fst (initChannels w) = Inl (wrap_fault f)"
    and 3: "tbl_channels (snd (initChannels w)) = tbl_channels w @ ?rows"
    and 4: "stdout (snd (initChannels w)) =
              stdout w @ map (\<lambda>r. Record_created (object_of r)) ?rows"
    and 5: "engine (snd (initChannels w)) = fs"
    unfolding run res by simp_all
  from 1 2 3 4 5 wrap_fault_not_caught [of f] show ?thesis by blast
qed

theorem initChannels_error_propagates_witness:
  "fst (initChannels (example_world\<lparr>engine := [None, None, Some Engine_failure]\<rparr>)) =
     Inl (SA_OperationalError ''database is locked'')
   \<and> map row_name (tbl_channels (snd
        (initChannels (example_world\<lparr>engine := [None, None, Some Engine_failure]\<rparr>)))) =
      [''Announcements'', ''Events'']"
proof -
  let ?w = "example_world\<lparr>engine := [None, None, Some Engine_failure]\<rparr>"
  have h1: "\<forall>gn\<in>set (map snd seed_pairs). first_by_name gn ?w \<noteq> None"
    by (simp add: seed_pairs_def first_by_name_def example_world_def example_groups_def)
  have h2: "session_new ?w = []"
    by (simp add: example_world_def)
  have h3: "engine ?w = replicate 2 None @ Some Engine_failure # []"
    by (simp add: example_world_def numeral_2_eq_2)
  have h4: "(2::nat) < 16" by simp
  from initChannels_error_propagates [OF h1 h2 h3 h4]
  have "fst (initChannels ?w) = Inl (wrap_fault Engine_failure)" by blast
  then show ?thesis
    by (simp add: run_defs)
qed

text \<open>
  C1 does not hold of the code. The seeder is run once on the example store and then a
  second time, and at the first insert of the second run the engine reports a uniqueness
  conflict. The session raises \<open>sqlalchemy.exc.IntegrityError\<close>, which is not an instance
  of the \<open>sqlite3.IntegrityError\<close> that line 2 imports and the handler names. So the
  exception leaves \<open>initChannels\<close>: there is no rollback (the channel is still pending), no
  line is printed, and the fifteen remaining channels are never tried.
\<close>

theorem initChannels_rerun_conflict:
  "map row_name (tbl_channels (snd (initChannels example_world))) = map fst seed_pairs
   \<and> initChannels ((snd (initChannels example_world))\<lparr>engine := [Some Unique_conflict]\<rparr>) =
       (Inl (SA_IntegrityError ''UNIQUE constraint failed''),
        (snd (initChannels example_world))
          \<lparr>session_new := [Channel_init (Some ''Announcements'') (Some 1) None],
           engine := []\<rparr>)"
  by (simp add: run_defs seed_pairs_def)

end
